theory Spec2Isabelle
  imports Complex_Main
begin

section \<open>JavaScript values\<close>

text \<open>
  The visual of \<^verbatim>\<open>src/twoYaxis/src/visual.ts\<close> is TypeScript compiled to JavaScript.
  A JavaScript number is idealised as a real number or \<open>NaN\<close>: rounding and the
  infinities of IEEE doubles are not modelled. A measure cell is a number, \<open>null\<close> or
  \<open>undefined\<close> (the source casts it with \<^verbatim>\<open><number>\<close>, which does nothing at run time).
  A category cell is a string (cast \<^verbatim>\<open><string>\<close>); reading it out of range gives
  \<open>undefined\<close>, which is \<open>None\<close> here.
\<close>

datatype jsnum = NaN | Num real

datatype jsval = Undefined | Null | Number jsnum

datatype error = TypeError

text \<open>\<open>ToNumber\<close> of the language: \<open>+undefined\<close> is \<open>NaN\<close>, \<open>+null\<close> is \<open>0\<close>.\<close>

fun ToNumber :: "jsval \<Rightarrow> jsnum" where
  "ToNumber Undefined = NaN"
| "ToNumber Null = Num 0"
| "ToNumber (Number n) = n"

fun js_minus :: "jsnum \<Rightarrow> jsnum \<Rightarrow> jsnum" where
  "js_minus (Num a) (Num b) = Num (a - b)"
| "js_minus _ _ = NaN"

text \<open>\<^verbatim>\<open>Math.round\<close>: the nearest integer, a tie going up.\<close>

definition Math_round :: "real \<Rightarrow> real" where
  "Math_round r = of_int \<lfloor>r + 1 / 2\<rfloor>"

definition Math_floor :: "real \<Rightarrow> real" where
  "Math_floor r = of_int \<lfloor>r\<rfloor>"

text \<open>Reading an array at an index: \<open>undefined\<close> out of range, never an error.\<close>

definition index_string :: "string list \<Rightarrow> nat \<Rightarrow> string option" where
  "index_string xs i = (if i < length xs then Some (xs ! i) else None)"

definition index_jsval :: "jsval list \<Rightarrow> nat \<Rightarrow> jsval" where
  "index_jsval xs i = (if i < length xs then xs ! i else Undefined)"

section \<open>The host's data view\<close>

text \<open>
  The fields of the host's \<^verbatim>\<open>VisualUpdateOptions\<close> that the visual reads. A field the
  guard of \<^verbatim>\<open>setViewModel\<close> tests for presence is an option (\<open>None\<close>: missing).
  \<open>categoryValues\<close> is the \<^verbatim>\<open>values\<close> array of a category column and \<open>columnValues\<close>
  the \<^verbatim>\<open>values\<close> array of a measure column; \<open>valueColumns\<close> is the
  \<^verbatim>\<open>values\<close> list of measure columns of the categorical section.
\<close>

record dataViewMetadataColumn =
  displayName :: string

record dataViewMetadata =
  columns :: "dataViewMetadataColumn list"

record dataViewCategoryColumn =
  source :: "dataViewMetadataColumn option"
  categoryValues :: "string list"

record dataViewValueColumn =
  columnValues :: "jsval list"

record dataViewCategorical =
  categories :: "dataViewCategoryColumn list option"
  valueColumns :: "dataViewValueColumn list option"

record dataView =
  metadata :: "dataViewMetadata option"
  categorical :: "dataViewCategorical option"

record IViewport =
  width :: real
  height :: real

record VisualUpdateOptions =
  dataViews :: "dataView list option"
  viewport :: IViewport

section \<open>The chart models\<close>

text \<open>
  \<^verbatim>\<open>BarPoint\<close>/\<^verbatim>\<open>BarModel\<close> and \<^verbatim>\<open>LinePoint\<close>/\<^verbatim>\<open>LineModel\<close> are the same shape in
  the source, and \<^verbatim>\<open>setViewModel\<close> types its local line model as a \<^verbatim>\<open>BarModel\<close>.
  The field \<^verbatim>\<open>value\<close> is \<open>val\<close> here.
\<close>

record BarPoint =
  category :: "string option"
  val :: jsval

record BarModel =
  dataPoints :: "BarPoint list"
  maxValue :: jsval

type_synonym LinePoint = BarPoint
type_synonym LineModel = BarModel

section \<open>The drawing surface\<close>

text \<open>
  What the visual keeps between calls: the two models (\<open>None\<close>: the field is still
  \<open>undefined\<close>) and the elements it owns. An attribute that is absent is \<open>None\<close>.
  A bar is a \<^verbatim>\<open>rect\<close> of class \<^verbatim>\<open>bar\<close> with its bound datum; nothing else is ever
  appended to the bar group, and only \<^verbatim>\<open>path\<close>s of class \<^verbatim>\<open>line\<close> to the line group.
  An axis group is described by the scale its axis was last drawn from and by its
  translation; the ticks the library draws are a function of that scale.
  The \<^verbatim>\<open>d\<close> attribute of the line is kept as the coordinates the line generator is
  given: the text of the cardinal spline is the library's function of them.
\<close>

record ordinalScale =
  ordinalDomain :: "string option list"
  ordinalRange :: "real list"
  ordinalRangeBand :: real

record linearScale =
  linearDomain :: "jsnum \<times> jsnum"
  linearRange :: "real \<times> real"

record 's axisGroup =
  axisScale :: "'s option"
  axisTransform :: "(real \<times> real) option"

record rect =
  datum :: BarPoint
  attr_width :: "jsnum option"
  attr_height :: "jsnum option"
  attr_y :: "jsnum option"
  attr_x :: "jsnum option"
  style_fill :: "string option"

record path =
  attr_transform :: "(real \<times> real) option"
  attr_d :: "(jsnum \<times> jsnum) list option"

record Visual =
  svg :: "(real \<times> real) option"
  xAxisGroup :: "ordinalScale axisGroup"
  yAxisGroupLeft :: "linearScale axisGroup"
  yAxisGroupRight :: "linearScale axisGroup"
  barGroup :: "rect list"
  barModel :: "BarModel option"
  lineGroup :: "path list"
  lineModel :: "LineModel option"

definition barGap :: real where
  "barGap = 3 / 10"

definition padding_top :: real where
  "padding_top = 30"

definition padding_right :: real where
  "padding_right = 50"

definition padding_bottom :: real where
  "padding_bottom = 50"

definition padding_left :: real where
  "padding_left = 30"

text \<open>The constructor: an empty surface with its five groups, no model yet.\<close>

definition constructor :: Visual where
  "constructor =
     \<lparr>svg = None,
      xAxisGroup = \<lparr>axisScale = None, axisTransform = None\<rparr>,
      yAxisGroupLeft = \<lparr>axisScale = None, axisTransform = None\<rparr>,
      yAxisGroupRight = \<lparr>axisScale = None, axisTransform = None\<rparr>,
      barGroup = [],
      barModel = None,
      lineGroup = [],
      lineModel = None\<rparr>"

section \<open>The view-model builder\<close>

text \<open>
  Modelled from the spec: \<^verbatim>\<open>d3.max(array, accessor)\<close> of the charting library, which is
  not under \<^verbatim>\<open>src/\<close> (the spec: the maximum value over the points, ignoring
  \<open>undefined\<close>/non-numeric entries per the underlying max function's semantics). The
  library's two loops: the first finds the first entry that is neither \<open>null\<close> nor
  \<open>undefined\<close> nor \<open>NaN\<close>, the second keeps the greater of what follows. With no such
  entry the result is \<open>undefined\<close>.
\<close>

fun d3_max_rest :: "real \<Rightarrow> jsval list \<Rightarrow> real" where
  "d3_max_rest a [] = a"
| "d3_max_rest a (Number (Num b) # bs) = (if b > a then d3_max_rest b bs else d3_max_rest a bs)"
| "d3_max_rest a (_ # bs) = d3_max_rest a bs"

fun d3_max :: "jsval list \<Rightarrow> jsval" where
  "d3_max [] = Undefined"
| "d3_max (Number (Num b) # bs) = Number (Num (d3_max_rest b bs))"
| "d3_max (_ # bs) = d3_max bs"

text \<open>
  The loop of lines 129-134 and 139-144:
  \<^verbatim>\<open>for (let i = 0, len = Math.max(c.length, v.length); i < len; i++) points.push({...})\<close>.
\<close>

function pushPoints :: "string list \<Rightarrow> jsval list \<Rightarrow> nat \<Rightarrow> nat \<Rightarrow> BarPoint list \<Rightarrow> BarPoint list" where
  "pushPoints cs vs i len points =
     (if i < len
      then pushPoints cs vs (Suc i) len
             (points @ [\<lparr>category = index_string cs i, val = index_jsval vs i\<rparr>])
      else points)"
  by pat_completeness auto
termination
  by (relation "measure (\<lambda>(cs, vs, i, len, points). len - i)") auto

definition buildModel :: "string list \<Rightarrow> jsval list \<Rightarrow> BarModel" where
  "buildModel cs vs =
     (let points = pushPoints cs vs 0 (max (length cs) (length vs)) []
      in \<lparr>dataPoints = points, maxValue = d3_max (map val points)\<rparr>)"

text \<open>
  \<^verbatim>\<open>setViewModel\<close> (lines 102-147). The result is what the method returns, or the
  \<^verbatim>\<open>TypeError\<close> it throws, with the instance as it is at that moment. The guard reads
  \<^verbatim>\<open>categories[0].source\<close> before it tests \<^verbatim>\<open>values\<close> and \<^verbatim>\<open>metadata\<close>; on an empty
  \<^verbatim>\<open>categories\<close> array that read is on \<open>undefined\<close> and throws. After the guard,
  \<^verbatim>\<open>view.values[0]\<close> and \<^verbatim>\<open>view.values[1]\<close> are read without a test, and
  \<^verbatim>\<open>.values.length\<close> on a missing column throws. The success path ends without a
  \<^verbatim>\<open>return\<close>: it returns \<open>undefined\<close> (\<open>None\<close>).
\<close>

definition setViewModel :: "VisualUpdateOptions \<Rightarrow> Visual \<Rightarrow> (error + BarModel option) \<times> Visual" where
  "setViewModel options this =
     (let barModel0 = \<lparr>dataPoints = [], maxValue = Number (Num 0)\<rparr> in
      case dataViews options of
        None \<Rightarrow> (Inr (Some barModel0), this)
      | Some [] \<Rightarrow> (Inr (Some barModel0), this)
      | Some (dv0 # _) \<Rightarrow>
          (case categorical dv0 of
             None \<Rightarrow> (Inr (Some barModel0), this)
           | Some view \<Rightarrow>
               (case categories view of
                  None \<Rightarrow> (Inr (Some barModel0), this)
                | Some [] \<Rightarrow> (Inl TypeError, this)
                | Some (categories0 # _) \<Rightarrow>
                    (case source categories0 of
                       None \<Rightarrow> (Inr (Some barModel0), this)
                     | Some _ \<Rightarrow>
                         (case valueColumns view of
                            None \<Rightarrow> (Inr (Some barModel0), this)
                          | Some cols \<Rightarrow>
                              (case metadata dv0 of
                                 None \<Rightarrow> (Inr (Some barModel0), this)
                               | Some _ \<Rightarrow>
                                   (case cols of
                                      [] \<Rightarrow> (Inl TypeError, this)
                                    | barValues # rest \<Rightarrow>
                                        (let this1 = this\<lparr>barModel :=
                                               Some (buildModel (categoryValues categories0) (columnValues barValues))\<rparr>
                                         in case rest of
                                              [] \<Rightarrow> (Inl TypeError, this1)
                                            | lineValues # _ \<Rightarrow>
                                                (Inr None, this1\<lparr>lineModel :=
                                                   Some (buildModel (categoryValues categories0) (columnValues lineValues))\<rparr>)))))))))"

section \<open>The scales of the charting library\<close>

text \<open>
  Modelled from the spec: \<^verbatim>\<open>d3.scale.ordinal().domain(..).rangeRoundBands(..)\<close> of the
  charting library, which is not under \<^verbatim>\<open>src/\<close> (the spec: a band scale whose domain
  is the ordered sequence of categories, duplicates collapsing to one band per unique
  category in first-seen order, and whose range is split into equal bands separated by
  a gap fraction; the band width is derived by the scale). The library keys its domain
  by the string form of a value, so \<open>undefined\<close> has the key \<^verbatim>\<open>"undefined"\<close>. The
  rounding of the band layout is the library's: the step is floored, the first band
  and the band width are rounded, and a descending range is laid out from its lower end
  and reversed. A value outside the domain is mapped to \<open>undefined\<close> (\<open>None\<close>).
\<close>

definition keyOf :: "string option \<Rightarrow> string" where
  "keyOf x = (case x of None \<Rightarrow> ''undefined'' | Some s \<Rightarrow> s)"

fun ordinal_domain :: "string option list \<Rightarrow> string option list \<Rightarrow> string option list" where
  "ordinal_domain [] domain = domain"
| "ordinal_domain (x # xs) domain =
     (if keyOf x \<in> set (map keyOf domain) then ordinal_domain xs domain
      else ordinal_domain xs (domain @ [x]))"

definition rangeRoundBands :: "string option list \<Rightarrow> real \<times> real \<Rightarrow> real \<Rightarrow> ordinalScale" where
  "rangeRoundBands domain x padding =
     (let reverse = snd x < fst x;
          start = (if reverse then snd x else fst x);
          stop = (if reverse then fst x else snd x);
          n = real (length domain);
          step = Math_floor ((stop - start) / (n - padding + 2 * padding));
          first = start + Math_round ((stop - start - (n - padding) * step) / 2);
          bands = map (\<lambda>i. first + step * real i) [0..<length domain]
      in \<lparr>ordinalDomain = domain,
          ordinalRange = (if reverse then rev bands else bands),
          ordinalRangeBand = Math_round (step * (1 - padding))\<rparr>)"

fun index_of :: "string \<Rightarrow> string option list \<Rightarrow> nat option" where
  "index_of k [] = None"
| "index_of k (x # xs) = (if keyOf x = k then Some 0 else map_option Suc (index_of k xs))"

definition ordinal_apply :: "ordinalScale \<Rightarrow> string option \<Rightarrow> jsnum option" where
  "ordinal_apply s x =
     (case index_of (keyOf x) (ordinalDomain s) of
        None \<Rightarrow> None
      | Some i \<Rightarrow>
          (if ordinalRange s = [] then None
           else Some (Num (ordinalRange s ! (i mod length (ordinalRange s))))))"

text \<open>
  Modelled from the spec: \<^verbatim>\<open>d3.scale.linear().domain([0, m]).range([r0, r1])\<close> of the
  charting library, which is not under \<^verbatim>\<open>src/\<close> (the spec: linear, domain
  \<open>[0, maxValue]\<close>, range \<open>[viewportHeight - bottomPadding, topPadding]\<close>; a domain
  \<open>[0, undefined]\<close> degrades). The library turns the domain's ends and its argument
  into numbers, maps the argument to \<open>t = (x - d0) / (d1 - d0)\<close> and then to
  \<open>r0 * (1 - t) + r1 * t\<close>. Where the domain has width 0 the library divides by
  infinity instead, so that \<open>t = 0\<close> and every number is mapped to \<open>r0\<close>.
\<close>

definition linear_apply :: "linearScale \<Rightarrow> jsval \<Rightarrow> jsnum" where
  "linear_apply s x =
     (case (fst (linearDomain s), snd (linearDomain s), ToNumber x) of
        (Num d0, Num d1, Num v) \<Rightarrow>
          (if d1 - d0 = 0 then Num (fst (linearRange s))
           else (let t = (v - d0) / (d1 - d0)
                 in Num (fst (linearRange s) * (1 - t) + snd (linearRange s) * t)))
      | _ \<Rightarrow> NaN)"

text \<open>
  The line generator of lines 191-194: the x of a point is \<^verbatim>\<open>xScale(d.category)\<close> and
  its y is \<^verbatim>\<open>yScaleRight(d.value)\<close>, both turned into numbers by the library. For no
  point at all the library's generator returns \<open>null\<close>, and an attribute set to
  \<open>null\<close> is absent.
\<close>

definition valueline :: "ordinalScale \<Rightarrow> linearScale \<Rightarrow> LinePoint list \<Rightarrow> (jsnum \<times> jsnum) list option" where
  "valueline xScale yScaleRight points =
     (if points = [] then None
      else Some (map (\<lambda>d. (case ordinal_apply xScale (category d) of None \<Rightarrow> NaN | Some n \<Rightarrow> n,
                            linear_apply yScaleRight (val d))) points))"

section \<open>The renderer\<close>

text \<open>
  Modelled from the spec: the library's data join
  \<^verbatim>\<open>selectAll(".bar").data(points)\<close> with no key function, which is not under \<^verbatim>\<open>src/\<close>
  (the spec: standard enter/update/exit reconciliation against the bound data array).
  The i-th existing bar is bound to the i-th point; a point with no bar enters as a new
  \<^verbatim>\<open>rect\<close> appended to the group (line 253-255) and joins the selection; a bar with no
  point exits and is removed (line 266-267).
\<close>

definition newRect :: "BarPoint \<Rightarrow> rect" where
  "newRect d =
     \<lparr>datum = d, attr_width = None, attr_height = None, attr_y = None, attr_x = None,
      style_fill = None\<rparr>"

definition joinBars :: "rect list \<Rightarrow> BarPoint list \<Rightarrow> rect list" where
  "joinBars elements points =
     map (\<lambda>(e, d). e\<lparr>datum := d\<rparr>) (zip elements points)
       @ map newRect (drop (length elements) points)"

text \<open>
  Lines 257-264: the attributes of every bar of the selection. An attribute whose
  function returns \<open>undefined\<close> is removed.
\<close>

definition barAttr :: "ordinalScale \<Rightarrow> linearScale \<Rightarrow> real \<Rightarrow> rect \<Rightarrow> rect" where
  "barAttr xScale yScaleLeft h e =
     e\<lparr>attr_width := Some (Num (ordinalRangeBand xScale)),
       attr_height :=
         Some (js_minus (js_minus (Num h) (linear_apply yScaleLeft (val (datum e))))
                 (Num padding_bottom)),
       attr_y := Some (linear_apply yScaleLeft (val (datum e))),
       attr_x := ordinal_apply xScale (category (datum e)),
       style_fill := Some ''#00c097''\<rparr>"

text \<open>Lines 270-272: \<^verbatim>\<open>select(".line").remove()\<close> removes the first line path, if any.\<close>

fun removeFirst :: "path list \<Rightarrow> path list" where
  "removeFirst [] = []"
| "removeFirst (p # ps) = ps"

text \<open>Lines 156-279 of \<^verbatim>\<open>update\<close>, once both models are there.\<close>

definition xScaleOf :: "VisualUpdateOptions \<Rightarrow> BarModel \<Rightarrow> ordinalScale" where
  "xScaleOf options bm =
     rangeRoundBands (ordinal_domain (map category (dataPoints bm)) [])
       (padding_left, width (viewport options) - padding_right) barGap"

definition yScaleOf :: "VisualUpdateOptions \<Rightarrow> BarModel \<Rightarrow> linearScale" where
  "yScaleOf options m =
     \<lparr>linearDomain = (Num 0, ToNumber (maxValue m)),
      linearRange = (height (viewport options) - padding_bottom, padding_top)\<rparr>"

definition render :: "VisualUpdateOptions \<Rightarrow> BarModel \<Rightarrow> LineModel \<Rightarrow> Visual \<Rightarrow> Visual" where
  "render options bm lm this =
     (let w = width (viewport options);
          h = height (viewport options);
          xScale = xScaleOf options bm;
          yScaleLeft = yScaleOf options bm;
          yScaleRight = yScaleOf options lm
      in this\<lparr>svg := Some (w, h),
              xAxisGroup := \<lparr>axisScale = Some xScale, axisTransform = Some (0, h - padding_bottom)\<rparr>,
              yAxisGroupLeft := \<lparr>axisScale = Some yScaleLeft, axisTransform = Some (padding_left, 0)\<rparr>,
              yAxisGroupRight :=
                \<lparr>axisScale = Some yScaleRight, axisTransform = Some (w - padding_right, 0)\<rparr>,
              barGroup := map (barAttr xScale yScaleLeft h) (joinBars (barGroup this) (dataPoints bm)),
              lineGroup :=
                removeFirst (lineGroup this)
                  @ [\<lparr>attr_transform = Some (ordinalRangeBand xScale / 2, 0),
                      attr_d = valueline xScale yScaleRight (dataPoints lm)\<rparr>]\<rparr>)"

text \<open>
  \<^verbatim>\<open>update\<close> (lines 149-280). It calls \<^verbatim>\<open>setViewModel\<close> and discards what it returns;
  an exception of \<^verbatim>\<open>setViewModel\<close> leaves \<^verbatim>\<open>update\<close> at once. Line 162 reads
  \<^verbatim>\<open>this.barModel.dataPoints\<close> and line 181 reads \<^verbatim>\<open>this.lineModel.maxValue\<close>: each
  throws a \<^verbatim>\<open>TypeError\<close> while the field is \<open>undefined\<close>, before anything is drawn.
\<close>

definition update :: "VisualUpdateOptions \<Rightarrow> Visual \<Rightarrow> (error + unit) \<times> Visual" where
  "update options this0 =
     (case setViewModel options this0 of
        (Inl e, this) \<Rightarrow> (Inl e, this)
      | (Inr _, this) \<Rightarrow>
          (case barModel this of
             None \<Rightarrow> (Inl TypeError, this)
           | Some bm \<Rightarrow>
               (case lineModel this of
                  None \<Rightarrow> (Inl TypeError, this)
                | Some lm \<Rightarrow> (Inr (), render options bm lm this))))"

text \<open>The states of an instance: the constructor's, and what any call of \<^verbatim>\<open>update\<close> leaves.\<close>

inductive reachable :: "Visual \<Rightarrow> bool" where
  reachable_constructor: "reachable constructor"
| reachable_update: "reachable this \<Longrightarrow> reachable (snd (update options this))"

section \<open>The maximum, in the spec's words\<close>

text \<open>
  The spec's \<open>maxValue\<close>: the maximum value across the points, ignoring \<open>undefined\<close>
  and non-numeric entries, and \<open>undefined\<close> when there is nothing to take the maximum
  of. It is compared with \<open>d3_max\<close> below.
\<close>

fun numericValues :: "jsval list \<Rightarrow> real list" where
  "numericValues [] = []"
| "numericValues (Number (Num x) # vs) = x # numericValues vs"
| "numericValues (_ # vs) = numericValues vs"

definition trueMaximum :: "jsval list \<Rightarrow> jsval" where
  "trueMaximum vs =
     (if numericValues vs = [] then Undefined else Number (Num (Max (set (numericValues vs)))))"

section \<open>Data views used as examples\<close>

text \<open>
  \<open>scenario_options\<close>: the spec's scenario, categories A, B, C with bar values 1, 5, 2
  and line values 3, 1, 4 in a 400 x 300 viewport. \<open>empty_options\<close>: a data view with
  no categorical section.
  \<open>sparse_options\<close>: two categories, one bar value and three line values.
  \<open>missing_values_options\<close>: an empty \<^verbatim>\<open>categories\<close> array and no \<^verbatim>\<open>values\<close> list.
  \<open>no_category_column_options\<close>: an empty \<^verbatim>\<open>categories\<close> array beside two measure
  columns. \<open>one_column_options\<close>: a category column and a single measure column.
  \<open>zero_options\<close>: one category whose bar value is 0.
\<close>

definition scenario_options :: VisualUpdateOptions where
  "scenario_options =
     \<lparr>dataViews = Some
        [\<lparr>metadata = Some \<lparr>columns = []\<rparr>,
          categorical = Some
            \<lparr>categories = Some
               [\<lparr>source = Some \<lparr>displayName = ''Category''\<rparr>,
                 categoryValues = [''A'', ''B'', ''C'']\<rparr>],
             valueColumns = Some
               [\<lparr>columnValues = [Number (Num 1), Number (Num 5), Number (Num 2)]\<rparr>,
                \<lparr>columnValues = [Number (Num 3), Number (Num 1), Number (Num 4)]\<rparr>]\<rparr>\<rparr>],
      viewport = \<lparr>width = 400, height = 300\<rparr>\<rparr>"

definition empty_options :: VisualUpdateOptions where
  "empty_options =
     \<lparr>dataViews = Some [\<lparr>metadata = Some \<lparr>columns = []\<rparr>, categorical = None\<rparr>],
      viewport = \<lparr>width = 400, height = 300\<rparr>\<rparr>"

definition sparse_options :: VisualUpdateOptions where
  "sparse_options =
     \<lparr>dataViews = Some
        [\<lparr>metadata = Some \<lparr>columns = []\<rparr>,
          categorical = Some
            \<lparr>categories = Some
               [\<lparr>source = Some \<lparr>displayName = ''Category''\<rparr>,
                 categoryValues = [''A'', ''B'']\<rparr>],
             valueColumns = Some
               [\<lparr>columnValues = [Number (Num 7)]\<rparr>,
                \<lparr>columnValues = [Number (Num 3), Null, Number (Num 4)]\<rparr>]\<rparr>\<rparr>],
      viewport = \<lparr>width = 400, height = 300\<rparr>\<rparr>"

definition missing_values_options :: VisualUpdateOptions where
  "missing_values_options =
     \<lparr>dataViews = Some
        [\<lparr>metadata = Some \<lparr>columns = []\<rparr>,
          categorical = Some \<lparr>categories = Some [], valueColumns = None\<rparr>\<rparr>],
      viewport = \<lparr>width = 400, height = 300\<rparr>\<rparr>"

definition no_category_column_options :: VisualUpdateOptions where
  "no_category_column_options =
     \<lparr>dataViews = Some
        [\<lparr>metadata = Some \<lparr>columns = []\<rparr>,
          categorical = Some
            \<lparr>categories = Some [],
             valueColumns = Some [\<lparr>columnValues = [Number (Num 1)]\<rparr>,
                                  \<lparr>columnValues = [Number (Num 2)]\<rparr>]\<rparr>\<rparr>],
      viewport = \<lparr>width = 400, height = 300\<rparr>\<rparr>"

definition one_column_options :: VisualUpdateOptions where
  "one_column_options =
     \<lparr>dataViews = Some
        [\<lparr>metadata = Some \<lparr>columns = []\<rparr>,
          categorical = Some
            \<lparr>categories = Some
               [\<lparr>source = Some \<lparr>displayName = ''Category''\<rparr>,
                 categoryValues = [''A'', ''B'']\<rparr>],
             valueColumns = Some [\<lparr>columnValues = [Number (Num 1), Number (Num 5)]\<rparr>]\<rparr>\<rparr>],
      viewport = \<lparr>width = 400, height = 300\<rparr>\<rparr>"

definition zero_options :: VisualUpdateOptions where
  "zero_options =
     \<lparr>dataViews = Some
        [\<lparr>metadata = Some \<lparr>columns = []\<rparr>,
          categorical = Some
            \<lparr>categories = Some
               [\<lparr>source = Some \<lparr>displayName = ''Category''\<rparr>,
                 categoryValues = [''A'']\<rparr>],
             valueColumns = Some
               [\<lparr>columnValues = [Number (Num 0)]\<rparr>,
                \<lparr>columnValues = [Number (Num 1)]\<rparr>]\<rparr>\<rparr>],
      viewport = \<lparr>width = 400, height = 300\<rparr>\<rparr>"

section \<open>The builder's loop and maximum\<close>

declare pushPoints.simps [simp del]

lemma pushPoints_eq:
  "pushPoints cs vs i len points =
     points @ map (\<lambda>j. \<lparr>category = index_string cs j, val = index_jsval vs j\<rparr>) [i..<len]"
proof (induction cs vs i len points rule: pushPoints.induct)
  case (1 cs vs i len points)
  show ?case
  proof (cases "i < len")
    case True
    then have "[i..<len] = i # [Suc i..<len]"
      by (simp add: upt_conv_Cons)
    with True "1.IH" show ?thesis
      by (subst pushPoints.simps) simp
  next
    case False
    then show ?thesis
      by (subst pushPoints.simps) simp
  qed
qed

lemma dataPoints_buildModel:
  "dataPoints (buildModel cs vs) =
     map (\<lambda>j. \<lparr>category = index_string cs j, val = index_jsval vs j\<rparr>)
       [0..<max (length cs) (length vs)]"
  by (simp add: buildModel_def pushPoints_eq)

lemma length_dataPoints_buildModel:
  "length (dataPoints (buildModel cs vs)) = max (length cs) (length vs)"
  by (simp add: dataPoints_buildModel)

lemma nth_dataPoints_buildModel:
  "i < max (length cs) (length vs) \<Longrightarrow>
     dataPoints (buildModel cs vs) ! i = \<lparr>category = index_string cs i, val = index_jsval vs i\<rparr>"
  by (simp add: dataPoints_buildModel)

lemma maxValue_buildModel:
  "maxValue (buildModel cs vs) = d3_max (map val (dataPoints (buildModel cs vs)))"
  by (simp add: buildModel_def Let_def)

lemma setViewModel_two_columns:
  assumes "dataViews options = Some (dv0 # dvs)"
    and "categorical dv0 = Some view"
    and "categories view = Some (categories0 # cs)"
    and "source categories0 = Some src"
    and "valueColumns view = Some (barValues # lineValues # rest)"
    and "metadata dv0 = Some md"
  shows "setViewModel options this =
           (Inr None,
            this\<lparr>barModel := Some (buildModel (categoryValues categories0) (columnValues barValues)),
                 lineModel := Some (buildModel (categoryValues categories0) (columnValues lineValues))\<rparr>)"
  using assms by (simp add: setViewModel_def)

lemma setViewModel_bar_column:
  assumes "dataViews options = Some (dv0 # dvs)"
    and "categorical dv0 = Some view"
    and "categories view = Some (categories0 # cs)"
    and "source categories0 = Some src"
    and "valueColumns view = Some (barValues # rest)"
    and "metadata dv0 = Some md"
  shows "barModel (snd (setViewModel options this)) =
           Some (buildModel (categoryValues categories0) (columnValues barValues))"
  using assms by (simp add: setViewModel_def Let_def split: list.splits)

lemma d3_max_rest_eq: "d3_max_rest a vs = Max (insert a (set (numericValues vs)))"
proof (induction a vs rule: d3_max_rest.induct)
  case (2 a b bs)
  have fin: "finite (set (numericValues bs))" by simp
  show ?case
  proof (cases "b > a")
    case True
    have "Max (insert a (insert b (set (numericValues bs)))) =
            max a (Max (insert b (set (numericValues bs))))"
      by (rule Max_insert) simp_all
    moreover have "b \<le> Max (insert b (set (numericValues bs)))"
      by (rule Max_ge) simp_all
    then have "a \<le> Max (insert b (set (numericValues bs)))"
      using True by linarith
    ultimately have "Max (insert a (insert b (set (numericValues bs)))) =
            Max (insert b (set (numericValues bs)))"
      by (simp only: max_absorb2)
    with True 2 show ?thesis by simp
  next
    case False
    have "Max (insert a (insert b (set (numericValues bs)))) =
            Max (insert b (insert a (set (numericValues bs))))"
      by (simp add: insert_commute)
    also have "\<dots> = max b (Max (insert a (set (numericValues bs))))"
      by (rule Max_insert) simp_all
    also have "\<dots> = Max (insert a (set (numericValues bs)))"
    proof -
      have "a \<le> Max (insert a (set (numericValues bs)))"
        by (rule Max_ge) simp_all
      with False have "b \<le> Max (insert a (set (numericValues bs)))"
        by linarith
      then show ?thesis by (simp only: max_absorb2)
    qed
    finally show ?thesis using False 2 by simp
  qed
qed simp_all

lemma d3_max_eq: "d3_max vs = trueMaximum vs"
proof (induction vs rule: d3_max.induct)
  case (2 b bs)
  show ?case by (simp add: trueMaximum_def d3_max_rest_eq)
qed (simp_all add: trueMaximum_def)

lemma category_nth_buildModel:
  "i < length (dataPoints (buildModel cs vs)) \<Longrightarrow>
     category (dataPoints (buildModel cs vs) ! i) = index_string cs i"
  by (simp add: dataPoints_buildModel)

text \<open>
  What the guard of \<^verbatim>\<open>setViewModel\<close> gives back where it finds something missing and
  every operand before it can be read: the local empty bar model, the instance untouched.
\<close>

lemma setViewModel_default:
  assumes "dataViews options = None \<or> dataViews options = Some []
     \<or> (\<exists>dv0 dvs. dataViews options = Some (dv0 # dvs)
          \<and> (categorical dv0 = None
             \<or> (\<exists>view. categorical dv0 = Some view
                  \<and> (categories view = None
                     \<or> (\<exists>c cs. categories view = Some (c # cs)
                          \<and> (source c = None \<or> valueColumns view = None \<or> metadata dv0 = None))))))"
  shows "setViewModel options this =
           (Inr (Some \<lparr>dataPoints = [], maxValue = Number (Num 0)\<rparr>), this)"
  using assms by (auto simp add: setViewModel_def Let_def split: option.splits)

lemma setViewModel_empty:
  "setViewModel empty_options this = (Inr (Some \<lparr>dataPoints = [], maxValue = Number (Num 0)\<rparr>), this)"
  by (simp add: setViewModel_def empty_options_def)

section \<open>The renderer's elements\<close>

lemma models_render:
  "barModel (render options bm lm this) = barModel this"
  "lineModel (render options bm lm this) = lineModel this"
  by (simp_all add: render_def Let_def)

lemma update_two_columns:
  assumes "dataViews options = Some (dv0 # dvs)"
    and "categorical dv0 = Some view"
    and "categories view = Some (categories0 # cs)"
    and "source categories0 = Some src"
    and "valueColumns view = Some (barValues # lineValues # rest)"
    and "metadata dv0 = Some md"
  shows "update options this =
           (Inr (),
            render options
              (buildModel (categoryValues categories0) (columnValues barValues))
              (buildModel (categoryValues categories0) (columnValues lineValues))
              (this\<lparr>barModel := Some (buildModel (categoryValues categories0) (columnValues barValues)),
                    lineModel := Some (buildModel (categoryValues categories0) (columnValues lineValues))\<rparr>))"
  by (simp add: update_def setViewModel_two_columns [OF assms])

lemma map_datum_joinBars: "map datum (joinBars elements points) = points"
proof -
  have "map datum (map (\<lambda>(e, d). e\<lparr>datum := d\<rparr>) (zip elements points)) =
          map snd (zip elements points)"
    by (simp add: case_prod_unfold)
  also have "\<dots> = take (length elements) points"
    by (cases "length elements \<le> length points") (simp_all add: map_snd_zip_take min_def)
  finally have "map datum (map (\<lambda>(e, d). e\<lparr>datum := d\<rparr>) (zip elements points)) =
      take (length elements) points" .
  moreover have "map datum (map newRect (drop (length elements) points)) =
      drop (length elements) points"
    by (simp add: newRect_def comp_def)
  ultimately show ?thesis
    by (simp add: joinBars_def)
qed

lemma length_joinBars: "length (joinBars elements points) = length points"
  using map_datum_joinBars [of elements points] by (metis length_map)

lemma datum_nth_joinBars:
  "i < length points \<Longrightarrow> datum (joinBars elements points ! i) = points ! i"
  using map_datum_joinBars [of elements points] length_joinBars [of elements points]
  by (metis nth_map)

lemma datum_barAttr: "datum (barAttr xScale yScaleLeft h e) = datum e"
  by (simp add: barAttr_def)

lemma joinBars_same:
  assumes "map datum elements = points"
  shows "joinBars elements points = elements"
proof -
  have len: "length elements = length points"
    using assms by (metis length_map)
  have "map (\<lambda>(e, d). e\<lparr>datum := d\<rparr>) (zip elements points) = elements"
  proof (rule nth_equalityI)
    show "length (map (\<lambda>(e, d). e\<lparr>datum := d\<rparr>) (zip elements points)) = length elements"
      by (simp add: len)
  next
    fix i
    assume "i < length (map (\<lambda>(e, d). e\<lparr>datum := d\<rparr>) (zip elements points))"
    then have i: "i < length elements" by simp
    then have "points ! i = datum (elements ! i)"
      using assms by (metis nth_map)
    with i len show "map (\<lambda>(e, d). e\<lparr>datum := d\<rparr>) (zip elements points) ! i = elements ! i"
      by simp
  qed
  with len show ?thesis
    by (simp add: joinBars_def)
qed

lemma barAttr_idem:
  "barAttr xScale yScaleLeft h (barAttr xScale yScaleLeft h e) = barAttr xScale yScaleLeft h e"
  by (simp add: barAttr_def)

lemma bars_idem:
  "map (barAttr x y h) (joinBars (map (barAttr x y h) (joinBars elements points)) points) =
     map (barAttr x y h) (joinBars elements points)"
proof -
  have "map datum (map (barAttr x y h) (joinBars elements points)) = points"
    by (simp add: comp_def datum_barAttr map_datum_joinBars)
  then have "joinBars (map (barAttr x y h) (joinBars elements points)) points =
      map (barAttr x y h) (joinBars elements points)"
    by (rule joinBars_same)
  then show ?thesis
    by (simp add: comp_def barAttr_idem)
qed

lemma line_idem:
  "length ps \<le> 1 \<Longrightarrow> removeFirst (removeFirst ps @ [p]) @ [p] = removeFirst ps @ [p]"
  by (cases ps) (simp_all)

lemma render_idem:
  assumes "length (lineGroup this) \<le> 1"
  shows "render options bm lm (render options bm lm this) = render options bm lm this"
  using assms by (simp add: render_def Let_def bars_idem line_idem)

lemma barGroup_render:
  "barGroup (render options bm lm this) =
     map (barAttr (xScaleOf options bm) (yScaleOf options bm) (height (viewport options)))
       (joinBars (barGroup this) (dataPoints bm))"
  by (simp add: render_def Let_def)

lemma lineGroup_render:
  "length (lineGroup (render options bm lm this)) = Suc (length (removeFirst (lineGroup this)))"
  by (simp add: render_def Let_def)

lemma length_removeFirst: "length (removeFirst ps) = length ps - 1"
  by (cases ps) simp_all

lemma setViewModel_frame:
  "svg (snd (setViewModel options this)) = svg this"
  "xAxisGroup (snd (setViewModel options this)) = xAxisGroup this"
  "yAxisGroupLeft (snd (setViewModel options this)) = yAxisGroupLeft this"
  "yAxisGroupRight (snd (setViewModel options this)) = yAxisGroupRight this"
  "barGroup (snd (setViewModel options this)) = barGroup this"
  "lineGroup (snd (setViewModel options this)) = lineGroup this"
  by (simp_all add: setViewModel_def Let_def split: option.splits list.splits)

lemma setViewModel_idem:
  "setViewModel options (snd (setViewModel options this)) = setViewModel options this"
  by (simp add: setViewModel_def Let_def split: option.splits list.splits)

lemma setViewModel_render:
  "setViewModel options (render options' bm lm this) =
     (fst (setViewModel options this), render options' bm lm (snd (setViewModel options this)))"
  by (simp add: setViewModel_def render_def Let_def split: option.splits list.splits)

lemma update_unfold:
  "update options this =
     (case fst (setViewModel options this) of
        Inl e \<Rightarrow> (Inl e, snd (setViewModel options this))
      | Inr r \<Rightarrow>
          (case barModel (snd (setViewModel options this)) of
             None \<Rightarrow> (Inl TypeError, snd (setViewModel options this))
           | Some bm \<Rightarrow>
               (case lineModel (snd (setViewModel options this)) of
                  None \<Rightarrow> (Inl TypeError, snd (setViewModel options this))
                | Some lm \<Rightarrow> (Inr (), render options bm lm (snd (setViewModel options this))))))"
proof (cases "setViewModel options this")
  case (Pair r s)
  then show ?thesis
    by (cases r) (simp_all add: update_def split: option.splits)
qed

lemma update_Inr:
  assumes "update options this = (Inr u, this')"
  obtains bm lm where "barModel (snd (setViewModel options this)) = Some bm"
    and "lineModel (snd (setViewModel options this)) = Some lm"
    and "this' = render options bm lm (snd (setViewModel options this))"
  using assms by (auto simp: update_unfold split: sum.splits option.splits)

lemma lineGroup_update:
  "length (lineGroup this) \<le> 1 \<Longrightarrow> length (lineGroup (snd (update options this))) \<le> 1"
  by (simp add: update_unfold setViewModel_frame lineGroup_render length_removeFirst
      split: sum.splits option.splits)

lemma reachable_lineGroup: "reachable this \<Longrightarrow> length (lineGroup this) \<le> 1"
proof (induction rule: reachable.induct)
  case reachable_constructor
  show ?case by (simp add: constructor_def)
next
  case (reachable_update this options)
  from reachable_update.IH show ?case by (rule lineGroup_update)
qed

lemma linear_apply_zero:
  "linear_apply (yScaleOf options bm) (Number (Num 0)) =
     (case ToNumber (maxValue bm) of NaN \<Rightarrow> NaN | Num m \<Rightarrow> Num (height (viewport options) - padding_bottom))"
  by (simp add: linear_apply_def yScaleOf_def split: jsnum.splits)

lemma linear_apply_max:
  "m \<noteq> 0 \<Longrightarrow> maxValue bm = Number (Num m) \<Longrightarrow>
     linear_apply (yScaleOf options bm) (Number (Num m)) = Num padding_top"
  by (simp add: linear_apply_def yScaleOf_def)

lemma attrs_barAttr:
  "attr_width (barAttr xScale yScaleLeft h e) = Some (Num (ordinalRangeBand xScale))"
  "attr_x (barAttr xScale yScaleLeft h e) = ordinal_apply xScale (category (datum e))"
  "attr_y (barAttr xScale yScaleLeft h e) = Some (linear_apply yScaleLeft (val (datum e)))"
  "attr_height (barAttr xScale yScaleLeft h e) =
     Some (js_minus (js_minus (Num h) (linear_apply yScaleLeft (val (datum e)))) (Num padding_bottom))"
  by (simp_all add: barAttr_def)

lemma constructor_fields:
  "barGroup constructor = []"
  "lineGroup constructor = []"
  "barModel constructor = None"
  "lineModel constructor = None"
  by (simp_all add: constructor_def)

lemma setViewModel_zero:
  "setViewModel zero_options this =
     (Inr None,
      this\<lparr>barModel := Some (buildModel [''A''] [Number (Num 0)]),
           lineModel := Some (buildModel [''A''] [Number (Num 1)])\<rparr>)"
  by (simp add: setViewModel_def zero_options_def)

lemma buildModel_zero:
  "buildModel [''A''] [Number (Num 0)] =
     \<lparr>dataPoints = [\<lparr>category = Some ''A'', val = Number (Num 0)\<rparr>], maxValue = Number (Num 0)\<rparr>"
  by (simp add: buildModel_def pushPoints_eq index_string_def index_jsval_def upt_rec)

lemma buildModel_scenario_bar:
  "buildModel [''A'', ''B'', ''C''] [Number (Num 1), Number (Num 5), Number (Num 2)] =
     \<lparr>dataPoints = [\<lparr>category = Some ''A'', val = Number (Num 1)\<rparr>,
                     \<lparr>category = Some ''B'', val = Number (Num 5)\<rparr>,
                     \<lparr>category = Some ''C'', val = Number (Num 2)\<rparr>],
      maxValue = Number (Num 5)\<rparr>"
  by (simp add: buildModel_def pushPoints_eq index_string_def index_jsval_def upt_rec)

lemma buildModel_scenario_line:
  "buildModel [''A'', ''B'', ''C''] [Number (Num 3), Number (Num 1), Number (Num 4)] =
     \<lparr>dataPoints = [\<lparr>category = Some ''A'', val = Number (Num 3)\<rparr>,
                     \<lparr>category = Some ''B'', val = Number (Num 1)\<rparr>,
                     \<lparr>category = Some ''C'', val = Number (Num 4)\<rparr>],
      maxValue = Number (Num 4)\<rparr>"
  by (simp add: buildModel_def pushPoints_eq index_string_def index_jsval_def upt_rec)

lemma setViewModel_scenario:
  "setViewModel scenario_options this =
     (Inr None,
      this\<lparr>barModel := Some (buildModel [''A'', ''B'', ''C''] [Number (Num 1), Number (Num 5), Number (Num 2)]),
           lineModel := Some (buildModel [''A'', ''B'', ''C''] [Number (Num 3), Number (Num 1), Number (Num 4)])\<rparr>)"
  by (simp add: setViewModel_def scenario_options_def)

lemma update_scenario:
  "update scenario_options this =
     (Inr (),
      render scenario_options
        (buildModel [''A'', ''B'', ''C''] [Number (Num 1), Number (Num 5), Number (Num 2)])
        (buildModel [''A'', ''B'', ''C''] [Number (Num 3), Number (Num 1), Number (Num 4)])
        (this\<lparr>barModel := Some (buildModel [''A'', ''B'', ''C''] [Number (Num 1), Number (Num 5), Number (Num 2)]),
           lineModel := Some (buildModel [''A'', ''B'', ''C''] [Number (Num 3), Number (Num 1), Number (Num 4)])\<rparr>))"
  by (simp add: update_def setViewModel_scenario)

section \<open>An empty data view\<close>

text \<open>
  C1. The claim: \<^verbatim>\<open>update\<close> with an empty data view (no categorical section) does not
  raise, produces the empty bar model and renders zero bars. On the code:
  \<^verbatim>\<open>setViewModel\<close> returns the empty bar model without storing it, and \<^verbatim>\<open>update\<close>
  discards what it returns. On a new instance \<^verbatim>\<open>this.barModel\<close> is still \<open>undefined\<close>
  and line 162 throws a \<^verbatim>\<open>TypeError\<close>; after a call with the scenario's data the same
  empty data view returns normally and leaves the three bars of that earlier call.
\<close>

theorem update_empty_view_throws:
  "setViewModel empty_options constructor =
     (Inr (Some \<lparr>dataPoints = [], maxValue = Number (Num 0)\<rparr>), constructor)
   \<and> update empty_options constructor = (Inl TypeError, constructor)
   \<and> fst (update empty_options (snd (update scenario_options constructor))) = Inr ()
   \<and> length (barGroup (snd (update empty_options (snd (update scenario_options constructor))))) = 3"
proof -
  have "update empty_options constructor = (Inl TypeError, constructor)"
    by (simp add: update_def setViewModel_empty constructor_fields)
  moreover have "fst (update empty_options (snd (update scenario_options constructor))) = Inr ()"
    by (simp add: update_scenario update_unfold [of empty_options] setViewModel_empty models_render)
  moreover have "length (barGroup (snd (update empty_options (snd (update scenario_options constructor))))) = 3"
    by (simp add: update_scenario update_unfold [of empty_options] setViewModel_empty models_render
        barGroup_render length_joinBars buildModel_scenario_bar)
  ultimately show ?thesis
    by (simp add: setViewModel_empty)
qed

section \<open>The guard of the builder\<close>

text \<open>
  C2. The claim: whenever the data view, its first element, its categorical section,
  its category column's source, its values list or its metadata is missing,
  \<^verbatim>\<open>setViewModel\<close> returns the empty bar model. On the code: with the values list
  missing and \<^verbatim>\<open>categories\<close> an empty array, the guard reads
  \<^verbatim>\<open>categories[0].source\<close> first and throws a \<^verbatim>\<open>TypeError\<close>.
\<close>

theorem setViewModel_missing_values_throws:
  "setViewModel missing_values_options constructor = (Inl TypeError, constructor)"
  by (simp add: setViewModel_def missing_values_options_def)

text \<open>
  C9. For a data view whose \<^verbatim>\<open>categories\<close> is there but is an empty array,
  \<^verbatim>\<open>setViewModel\<close> throws a \<^verbatim>\<open>TypeError\<close> inside its guard, whatever else the view
  holds, and leaves the instance as it was; it does not return the empty bar model.
\<close>

theorem setViewModel_empty_categories_throws:
  assumes "dataViews options = Some (dv0 # dvs)"
    and "categorical dv0 = Some view"
    and "categories view = Some []"
  shows "setViewModel options this = (Inl TypeError, this)"
  using assms by (simp add: setViewModel_def)

theorem setViewModel_empty_categories_throws_witness:
  "setViewModel no_category_column_options constructor = (Inl TypeError, constructor)"
proof -
  let ?view = "\<lparr>categories = Some [],
                 valueColumns = Some [\<lparr>columnValues = [Number (Num 1)]\<rparr>,
                                      \<lparr>columnValues = [Number (Num 2)]\<rparr>]\<rparr>"
  let ?dv = "\<lparr>metadata = Some \<lparr>columns = []\<rparr>, categorical = Some ?view\<rparr>"
  have h1: "dataViews no_category_column_options = Some (?dv # [])"
    by (simp add: no_category_column_options_def)
  have h2: "categorical ?dv = Some ?view" by simp
  have h3: "categories ?view = Some []" by simp
  show ?thesis
    by (rule setViewModel_empty_categories_throws [OF h1 h2 h3])
qed

text \<open>
  C10. For a data view that passes the guard and has exactly one measure column,
  \<^verbatim>\<open>setViewModel\<close> throws a \<^verbatim>\<open>TypeError\<close> at line 139 after it has stored the
  rebuilt bar model: the instance has the new \<open>barModel\<close> and its old \<open>lineModel\<close>.
\<close>

theorem setViewModel_one_column_throws:
  assumes "dataViews options = Some (dv0 # dvs)"
    and "categorical dv0 = Some view"
    and "categories view = Some (categories0 # cs)"
    and "source categories0 = Some src"
    and "valueColumns view = Some [barValues]"
    and "metadata dv0 = Some md"
  shows "setViewModel options this =
           (Inl TypeError,
            this\<lparr>barModel := Some (buildModel (categoryValues categories0) (columnValues barValues))\<rparr>)
         \<and> lineModel (snd (setViewModel options this)) = lineModel this"
  using assms by (simp add: setViewModel_def)

theorem setViewModel_one_column_throws_witness:
  "setViewModel one_column_options constructor =
     (Inl TypeError,
      constructor\<lparr>barModel := Some
        \<lparr>dataPoints = [\<lparr>category = Some ''A'', val = Number (Num 1)\<rparr>,
                        \<lparr>category = Some ''B'', val = Number (Num 5)\<rparr>],
         maxValue = Number (Num 5)\<rparr>\<rparr>)
   \<and> lineModel (snd (setViewModel one_column_options constructor)) = None"
proof -
  let ?cat = "\<lparr>source = Some \<lparr>displayName = ''Category''\<rparr>, categoryValues = [''A'', ''B'']\<rparr>"
  let ?bar = "\<lparr>columnValues = [Number (Num 1), Number (Num 5)]\<rparr>"
  let ?view = "\<lparr>categories = Some [?cat], valueColumns = Some [?bar]\<rparr>"
  let ?dv = "\<lparr>metadata = Some \<lparr>columns = []\<rparr>, categorical = Some ?view\<rparr>"
  have h1: "dataViews one_column_options = Some (?dv # [])"
    by (simp add: one_column_options_def)
  have h2: "categorical ?dv = Some ?view" by simp
  have h3: "categories ?view = Some (?cat # [])" by simp
  have h4: "source ?cat = Some \<lparr>displayName = ''Category''\<rparr>" by simp
  have h5: "valueColumns ?view = Some [?bar]" by simp
  have h6: "metadata ?dv = Some \<lparr>columns = []\<rparr>" by simp
  have bm: "buildModel [''A'', ''B''] [Number (Num 1), Number (Num 5)] =
      \<lparr>dataPoints = [\<lparr>category = Some ''A'', val = Number (Num 1)\<rparr>,
                      \<lparr>category = Some ''B'', val = Number (Num 5)\<rparr>],
       maxValue = Number (Num 5)\<rparr>"
    by (simp add: buildModel_def pushPoints_eq index_string_def index_jsval_def upt_rec)
  from setViewModel_one_column_throws [OF h1 h2 h3 h4 h5 h6, of constructor]
  show ?thesis
    by (simp add: bm constructor_def)
qed

section \<open>Replacing the derived state\<close>

text \<open>
  C3. The claim: every call of \<^verbatim>\<open>update\<close> replaces both stored models, for a valid
  data view or not. On the code: after a call with the scenario's data, \<^verbatim>\<open>update\<close>
  with a data view that has no categorical section returns normally and both stored
  models are still the scenario's.
\<close>

theorem update_keeps_stale_models:
  "fst (update empty_options (snd (update scenario_options constructor))) = Inr ()
   \<and> barModel (snd (update empty_options (snd (update scenario_options constructor)))) =
       Some \<lparr>dataPoints = [\<lparr>category = Some ''A'', val = Number (Num 1)\<rparr>,
                            \<lparr>category = Some ''B'', val = Number (Num 5)\<rparr>,
                            \<lparr>category = Some ''C'', val = Number (Num 2)\<rparr>],
             maxValue = Number (Num 5)\<rparr>
   \<and> lineModel (snd (update empty_options (snd (update scenario_options constructor)))) =
       Some \<lparr>dataPoints = [\<lparr>category = Some ''A'', val = Number (Num 3)\<rparr>,
                            \<lparr>category = Some ''B'', val = Number (Num 1)\<rparr>,
                            \<lparr>category = Some ''C'', val = Number (Num 4)\<rparr>],
             maxValue = Number (Num 4)\<rparr>"
  by (simp add: update_scenario update_unfold [of empty_options] setViewModel_empty models_render
      buildModel_scenario_bar buildModel_scenario_line)

section \<open>The points of each series\<close>

text \<open>
  C4. For a data view that passes the guard of \<^verbatim>\<open>setViewModel\<close>, every series whose
  measure column is there gets a model whose points are as many as the longer of the
  category array and that column's array, the point at \<open>i\<close> holding \<open>categories[i]\<close>
  and \<open>values[i]\<close>, each \<open>undefined\<close> where \<open>i\<close> is beyond its array; with both columns
  there the call returns without an error, whatever the lengths.
\<close>

theorem setViewModel_series_points:
  assumes "dataViews options = Some (dv0 # dvs)"
    and "categorical dv0 = Some view"
    and "categories view = Some (categories0 # cs)"
    and "source categories0 = Some src"
    and "valueColumns view = Some (barValues # rest)"
    and "metadata dv0 = Some md"
  shows "(\<exists>bm. barModel (snd (setViewModel options this)) = Some bm
            \<and> length (dataPoints bm) =
                max (length (categoryValues categories0)) (length (columnValues barValues))
            \<and> (\<forall>i<length (dataPoints bm). dataPoints bm ! i =
                  \<lparr>category = index_string (categoryValues categories0) i,
                   val = index_jsval (columnValues barValues) i\<rparr>))
       \<and> (\<forall>lineValues rest'. rest = lineValues # rest' \<longrightarrow>
            fst (setViewModel options this) = Inr None
            \<and> (\<exists>lm. lineModel (snd (setViewModel options this)) = Some lm
                  \<and> length (dataPoints lm) =
                      max (length (categoryValues categories0)) (length (columnValues lineValues))
                  \<and> (\<forall>i<length (dataPoints lm). dataPoints lm ! i =
                        \<lparr>category = index_string (categoryValues categories0) i,
                         val = index_jsval (columnValues lineValues) i\<rparr>)))"
proof (intro conjI allI impI)
  let ?bm = "buildModel (categoryValues categories0) (columnValues barValues)"
  have "barModel (snd (setViewModel options this)) = Some ?bm"
    using assms by (rule setViewModel_bar_column)
  then show "\<exists>bm. barModel (snd (setViewModel options this)) = Some bm
            \<and> length (dataPoints bm) =
                max (length (categoryValues categories0)) (length (columnValues barValues))
            \<and> (\<forall>i<length (dataPoints bm). dataPoints bm ! i =
                  \<lparr>category = index_string (categoryValues categories0) i,
                   val = index_jsval (columnValues barValues) i\<rparr>)"
    by (simp add: length_dataPoints_buildModel nth_dataPoints_buildModel)
next
  fix lineValues rest'
  assume rest: "rest = lineValues # rest'"
  let ?lm = "buildModel (categoryValues categories0) (columnValues lineValues)"
  have cols: "valueColumns view = Some (barValues # lineValues # rest')"
    using assms(5) rest by simp
  note two = setViewModel_two_columns [OF assms(1-4) cols assms(6), of this]
  show "fst (setViewModel options this) = Inr None"
    by (simp add: two)
  have "lineModel (snd (setViewModel options this)) = Some ?lm"
    by (simp add: two)
  then show "\<exists>lm. lineModel (snd (setViewModel options this)) = Some lm
                  \<and> length (dataPoints lm) =
                      max (length (categoryValues categories0)) (length (columnValues lineValues))
                  \<and> (\<forall>i<length (dataPoints lm). dataPoints lm ! i =
                        \<lparr>category = index_string (categoryValues categories0) i,
                         val = index_jsval (columnValues lineValues) i\<rparr>)"
    by (simp add: length_dataPoints_buildModel nth_dataPoints_buildModel)
qed

theorem setViewModel_series_points_witness:
  "fst (setViewModel sparse_options constructor) = Inr None
   \<and> length (dataPoints (the (barModel (snd (setViewModel sparse_options constructor))))) = 2
   \<and> dataPoints (the (barModel (snd (setViewModel sparse_options constructor)))) ! 1
       = \<lparr>category = Some ''B'', val = Undefined\<rparr>
   \<and> length (dataPoints (the (lineModel (snd (setViewModel sparse_options constructor))))) = 3
   \<and> dataPoints (the (lineModel (snd (setViewModel sparse_options constructor)))) ! 2
       = \<lparr>category = None, val = Number (Num 4)\<rparr>"
proof -
  let ?cat = "\<lparr>source = Some \<lparr>displayName = ''Category''\<rparr>, categoryValues = [''A'', ''B'']\<rparr>"
  let ?bar = "\<lparr>columnValues = [Number (Num 7)]\<rparr>"
  let ?line = "\<lparr>columnValues = [Number (Num 3), Null, Number (Num 4)]\<rparr>"
  let ?view = "\<lparr>categories = Some [?cat], valueColumns = Some [?bar, ?line]\<rparr>"
  let ?dv = "\<lparr>metadata = Some \<lparr>columns = []\<rparr>, categorical = Some ?view\<rparr>"
  have h1: "dataViews sparse_options = Some (?dv # [])"
    by (simp add: sparse_options_def)
  have h2: "categorical ?dv = Some ?view" by simp
  have h3: "categories ?view = Some (?cat # [])" by simp
  have h4: "source ?cat = Some \<lparr>displayName = ''Category''\<rparr>" by simp
  have h5: "valueColumns ?view = Some (?bar # [?line])" by simp
  have h6: "metadata ?dv = Some \<lparr>columns = []\<rparr>" by simp
  from setViewModel_series_points [OF h1 h2 h3 h4 h5 h6, of constructor]
  obtain bm lm where
    "barModel (snd (setViewModel sparse_options constructor)) = Some bm"
    "length (dataPoints bm) = 2"
    "\<forall>i<length (dataPoints bm). dataPoints bm ! i =
        \<lparr>category = index_string [''A'', ''B''] i, val = index_jsval [Number (Num 7)] i\<rparr>"
    "fst (setViewModel sparse_options constructor) = Inr None"
    "lineModel (snd (setViewModel sparse_options constructor)) = Some lm"
    "length (dataPoints lm) = 3"
    "\<forall>i<length (dataPoints lm). dataPoints lm ! i =
        \<lparr>category = index_string [''A'', ''B''] i, val = index_jsval [Number (Num 3), Null, Number (Num 4)] i\<rparr>"
    by auto
  then show ?thesis
    by (simp add: index_string_def index_jsval_def)
qed

section \<open>The maximum of each series\<close>

text \<open>
  C5. For a data view that passes the guard, the model built for every series whose
  measure column is there has as \<open>maxValue\<close> the maximum of its points' values,
  \<open>undefined\<close>, \<open>null\<close> and \<open>NaN\<close> entries ignored, and \<open>undefined\<close> where no numeric
  value is left; so a model with no point has \<open>maxValue\<close> \<open>undefined\<close>.
\<close>

theorem maxValue_true_maximum:
  assumes "dataViews options = Some (dv0 # dvs)"
    and "categorical dv0 = Some view"
    and "categories view = Some (categories0 # cs)"
    and "source categories0 = Some src"
    and "valueColumns view = Some (barValues # rest)"
    and "metadata dv0 = Some md"
  shows "(\<exists>bm. barModel (snd (setViewModel options this)) = Some bm
            \<and> maxValue bm = trueMaximum (map val (dataPoints bm))
            \<and> (dataPoints bm = [] \<longrightarrow> maxValue bm = Undefined))
       \<and> (\<forall>lineValues rest'. rest = lineValues # rest' \<longrightarrow>
            (\<exists>lm. lineModel (snd (setViewModel options this)) = Some lm
                  \<and> maxValue lm = trueMaximum (map val (dataPoints lm))
                  \<and> (dataPoints lm = [] \<longrightarrow> maxValue lm = Undefined)))"
proof (intro conjI allI impI)
  have max: "maxValue (buildModel c v) = trueMaximum (map val (dataPoints (buildModel c v)))" for c v
    by (simp add: maxValue_buildModel d3_max_eq)
  have empty: "dataPoints (buildModel c v) = [] \<longrightarrow> maxValue (buildModel c v) = Undefined" for c v
    by (simp add: max trueMaximum_def)
  have "barModel (snd (setViewModel options this)) =
      Some (buildModel (categoryValues categories0) (columnValues barValues))"
    using assms by (rule setViewModel_bar_column)
  with max empty
  show "\<exists>bm. barModel (snd (setViewModel options this)) = Some bm
            \<and> maxValue bm = trueMaximum (map val (dataPoints bm))
            \<and> (dataPoints bm = [] \<longrightarrow> maxValue bm = Undefined)"
    by blast
  fix lineValues rest'
  assume "rest = lineValues # rest'"
  with assms(5) have cols: "valueColumns view = Some (barValues # lineValues # rest')"
    by simp
  have "lineModel (snd (setViewModel options this)) =
      Some (buildModel (categoryValues categories0) (columnValues lineValues))"
    by (simp add: setViewModel_two_columns [OF assms(1-4) cols assms(6)])
  with max empty
  show "\<exists>lm. lineModel (snd (setViewModel options this)) = Some lm
            \<and> maxValue lm = trueMaximum (map val (dataPoints lm))
            \<and> (dataPoints lm = [] \<longrightarrow> maxValue lm = Undefined)"
    by blast
qed

theorem maxValue_true_maximum_witness:
  "maxValue (the (barModel (snd (setViewModel sparse_options constructor)))) = Number (Num 7)
   \<and> maxValue (the (lineModel (snd (setViewModel sparse_options constructor)))) = Number (Num 4)"
proof -
  let ?cat = "\<lparr>source = Some \<lparr>displayName = ''Category''\<rparr>, categoryValues = [''A'', ''B'']\<rparr>"
  let ?bar = "\<lparr>columnValues = [Number (Num 7)]\<rparr>"
  let ?line = "\<lparr>columnValues = [Number (Num 3), Null, Number (Num 4)]\<rparr>"
  let ?view = "\<lparr>categories = Some [?cat], valueColumns = Some [?bar, ?line]\<rparr>"
  let ?dv = "\<lparr>metadata = Some \<lparr>columns = []\<rparr>, categorical = Some ?view\<rparr>"
  have h1: "dataViews sparse_options = Some (?dv # [])"
    by (simp add: sparse_options_def)
  have h2: "categorical ?dv = Some ?view" by simp
  have h3: "categories ?view = Some (?cat # [])" by simp
  have h4: "source ?cat = Some \<lparr>displayName = ''Category''\<rparr>" by simp
  have h5: "valueColumns ?view = Some (?bar # [?line])" by simp
  have h6: "metadata ?dv = Some \<lparr>columns = []\<rparr>" by simp
  from maxValue_true_maximum [OF h1 h2 h3 h4 h5 h6, of constructor]
  obtain bm lm where
    b: "barModel (snd (setViewModel sparse_options constructor)) = Some bm"
    and l: "lineModel (snd (setViewModel sparse_options constructor)) = Some lm"
    and m: "maxValue bm = trueMaximum (map val (dataPoints bm))"
      "maxValue lm = trueMaximum (map val (dataPoints lm))"
    by blast
  have "snd (setViewModel sparse_options constructor) =
          constructor\<lparr>barModel := Some (buildModel [''A'', ''B''] [Number (Num 7)]),
                       lineModel := Some (buildModel [''A'', ''B''] [Number (Num 3), Null, Number (Num 4)])\<rparr>"
    by (simp add: setViewModel_two_columns [OF h1 h2 h3 h4 h5 h6])
  with b l have bm: "bm = buildModel [''A'', ''B''] [Number (Num 7)]"
    and lm: "lm = buildModel [''A'', ''B''] [Number (Num 3), Null, Number (Num 4)]"
    by simp_all
  have "map val (dataPoints bm) = [Number (Num 7), Undefined]"
    unfolding bm by (simp add: dataPoints_buildModel index_jsval_def upt_rec)
  moreover have "map val (dataPoints lm) = [Number (Num 3), Null, Number (Num 4)]"
    unfolding lm by (simp add: dataPoints_buildModel index_jsval_def upt_rec)
  ultimately show ?thesis using b l m
    by (simp add: trueMaximum_def)
qed

section \<open>The two models share their categories\<close>

text \<open>
  C6. After an \<^verbatim>\<open>update\<close> in which both models are rebuilt (the data view passes the
  guard and has both measure columns), the bar point and the line point at every index
  where both exist have the same category; and where the category array and both value
  arrays have one length \<open>n\<close>, both models have exactly \<open>n\<close> points.
\<close>

theorem update_models_category_aligned:
  assumes "dataViews options = Some (dv0 # dvs)"
    and "categorical dv0 = Some view"
    and "categories view = Some (categories0 # cs)"
    and "source categories0 = Some src"
    and "valueColumns view = Some (barValues # lineValues # rest)"
    and "metadata dv0 = Some md"
  shows "\<exists>bm lm. fst (update options this) = Inr ()
           \<and> barModel (snd (update options this)) = Some bm
           \<and> lineModel (snd (update options this)) = Some lm
           \<and> (\<forall>i. i < length (dataPoints bm) \<and> i < length (dataPoints lm) \<longrightarrow>
                 category (dataPoints bm ! i) = category (dataPoints lm ! i))
           \<and> (length (columnValues barValues) = length (categoryValues categories0)
                \<and> length (columnValues lineValues) = length (categoryValues categories0) \<longrightarrow>
                 length (dataPoints bm) = length (categoryValues categories0)
                 \<and> length (dataPoints lm) = length (categoryValues categories0))"
proof -
  let ?bm = "buildModel (categoryValues categories0) (columnValues barValues)"
  let ?lm = "buildModel (categoryValues categories0) (columnValues lineValues)"
  note upd = update_two_columns [OF assms, of this]
  have "fst (update options this) = Inr ()"
    by (simp add: upd)
  moreover have "barModel (snd (update options this)) = Some ?bm"
    by (simp add: upd models_render)
  moreover have "lineModel (snd (update options this)) = Some ?lm"
    by (simp add: upd models_render)
  moreover have "\<forall>i. i < length (dataPoints ?bm) \<and> i < length (dataPoints ?lm) \<longrightarrow>
      category (dataPoints ?bm ! i) = category (dataPoints ?lm ! i)"
    by (simp add: category_nth_buildModel)
  moreover have "length (columnValues barValues) = length (categoryValues categories0)
       \<and> length (columnValues lineValues) = length (categoryValues categories0) \<longrightarrow>
     length (dataPoints ?bm) = length (categoryValues categories0)
     \<and> length (dataPoints ?lm) = length (categoryValues categories0)"
    by (simp add: length_dataPoints_buildModel)
  ultimately show ?thesis by blast
qed

theorem update_models_category_aligned_witness:
  "fst (update scenario_options constructor) = Inr ()
   \<and> length (dataPoints (the (barModel (snd (update scenario_options constructor))))) = 3
   \<and> length (dataPoints (the (lineModel (snd (update scenario_options constructor))))) = 3
   \<and> category (dataPoints (the (barModel (snd (update scenario_options constructor)))) ! 2)
       = category (dataPoints (the (lineModel (snd (update scenario_options constructor)))) ! 2)"
proof -
  let ?cat = "\<lparr>source = Some \<lparr>displayName = ''Category''\<rparr>, categoryValues = [''A'', ''B'', ''C'']\<rparr>"
  let ?bar = "\<lparr>columnValues = [Number (Num 1), Number (Num 5), Number (Num 2)]\<rparr>"
  let ?line = "\<lparr>columnValues = [Number (Num 3), Number (Num 1), Number (Num 4)]\<rparr>"
  let ?view = "\<lparr>categories = Some [?cat], valueColumns = Some [?bar, ?line]\<rparr>"
  let ?dv = "\<lparr>metadata = Some \<lparr>columns = []\<rparr>, categorical = Some ?view\<rparr>"
  have h1: "dataViews scenario_options = Some (?dv # [])"
    by (simp add: scenario_options_def)
  have h2: "categorical ?dv = Some ?view" by simp
  have h3: "categories ?view = Some (?cat # [])" by simp
  have h4: "source ?cat = Some \<lparr>displayName = ''Category''\<rparr>" by simp
  have h5: "valueColumns ?view = Some (?bar # ?line # [])" by simp
  have h6: "metadata ?dv = Some \<lparr>columns = []\<rparr>" by simp
  from update_models_category_aligned [OF h1 h2 h3 h4 h5 h6, of constructor]
  show ?thesis by auto
qed

section \<open>The geometry of a bar\<close>

text \<open>
  C7, as amended. After an \<^verbatim>\<open>update\<close> that returns, there is one bar for each point of
  the stored bar model; for the bar at a point with a numeric value \<open>v\<close>, the stored
  \<open>maxValue\<close> being a number \<open>m\<close>: its datum is that point, its width is the band width
  of the horizontal scale, its x is the horizontal scale at the point's category, its y
  is the left scale at \<open>v\<close> and its height is the viewport height less the left scale at
  \<open>v\<close> less the bottom padding; \<open>v = 0\<close> gives height 0, and \<open>v = m\<close> gives the viewport
  height less the top and bottom padding provided \<open>m\<close> is not 0.
\<close>

theorem bar_geometry:
  assumes "update options this = (Inr (), this')"
    and "barModel this' = Some bm"
    and "i < length (dataPoints bm)"
    and "val (dataPoints bm ! i) = Number (Num v)"
    and "maxValue bm = Number (Num m)"
  shows "length (barGroup this') = length (dataPoints bm)
     \<and> datum (barGroup this' ! i) = dataPoints bm ! i
     \<and> attr_width (barGroup this' ! i) = Some (Num (ordinalRangeBand (xScaleOf options bm)))
     \<and> attr_x (barGroup this' ! i) =
         ordinal_apply (xScaleOf options bm) (category (dataPoints bm ! i))
     \<and> attr_y (barGroup this' ! i) = Some (linear_apply (yScaleOf options bm) (Number (Num v)))
     \<and> attr_height (barGroup this' ! i) =
         Some (js_minus
                 (js_minus (Num (height (viewport options)))
                    (linear_apply (yScaleOf options bm) (Number (Num v))))
                 (Num padding_bottom))
     \<and> (v = 0 \<longrightarrow> attr_height (barGroup this' ! i) = Some (Num 0))
     \<and> (v = m \<and> m \<noteq> 0 \<longrightarrow>
          attr_height (barGroup this' ! i) =
            Some (Num (height (viewport options) - padding_top - padding_bottom)))"
proof -
  from assms(1) obtain bm' lm where
    bm': "barModel (snd (setViewModel options this)) = Some bm'"
    and this': "this' = render options bm' lm (snd (setViewModel options this))"
    by (rule update_Inr)
  from assms(2) this' bm' have "bm' = bm"
    by (simp add: models_render)
  with this' have bars: "barGroup this' =
      map (barAttr (xScaleOf options bm) (yScaleOf options bm) (height (viewport options)))
        (joinBars (barGroup (snd (setViewModel options this))) (dataPoints bm))"
    by (simp add: barGroup_render)
  let ?e = "joinBars (barGroup (snd (setViewModel options this))) (dataPoints bm) ! i"
  have len: "length (barGroup this') = length (dataPoints bm)"
    by (simp add: bars length_joinBars)
  have nth: "barGroup this' ! i =
      barAttr (xScaleOf options bm) (yScaleOf options bm) (height (viewport options)) ?e"
    using assms(3) by (simp add: bars length_joinBars)
  have datum: "datum ?e = dataPoints bm ! i"
    using assms(3) by (rule datum_nth_joinBars)
  have h: "attr_height (barGroup this' ! i) =
         Some (js_minus
                 (js_minus (Num (height (viewport options)))
                    (linear_apply (yScaleOf options bm) (Number (Num v))))
                 (Num padding_bottom))"
    by (simp add: nth attrs_barAttr datum assms(4))
  have h0: "v = 0 \<longrightarrow> attr_height (barGroup this' ! i) = Some (Num 0)"
    by (simp add: h linear_apply_zero assms(5))
  have hm: "v = m \<and> m \<noteq> 0 \<longrightarrow>
          attr_height (barGroup this' ! i) =
            Some (Num (height (viewport options) - padding_top - padding_bottom))"
    using assms(5) by (auto simp add: h linear_apply_max)
  show ?thesis
    using len h h0 hm by (simp add: nth datum_barAttr attrs_barAttr datum assms(4))
qed

theorem bar_geometry_witness:
  "length (barGroup (snd (update scenario_options constructor))) = 3
   \<and> attr_y (barGroup (snd (update scenario_options constructor)) ! 1) = Some (Num 30)
   \<and> attr_height (barGroup (snd (update scenario_options constructor)) ! 1) = Some (Num 220)"
proof -
  let ?bm = "buildModel [''A'', ''B'', ''C''] [Number (Num 1), Number (Num 5), Number (Num 2)]"
  have h1: "update scenario_options constructor = (Inr (), snd (update scenario_options constructor))"
    by (simp add: update_scenario)
  have h2: "barModel (snd (update scenario_options constructor)) = Some ?bm"
    by (simp add: update_scenario models_render)
  have h3: "1 < length (dataPoints ?bm)"
    by (simp add: buildModel_scenario_bar)
  have h4: "val (dataPoints ?bm ! 1) = Number (Num 5)"
    by (simp add: buildModel_scenario_bar)
  have h5: "maxValue ?bm = Number (Num 5)"
    by (simp add: buildModel_scenario_bar)
  from bar_geometry [OF h1 h2 h3 h4 h5]
  show ?thesis
    by (simp add: buildModel_scenario_bar linear_apply_def yScaleOf_def scenario_options_def
        padding_top_def padding_bottom_def)
qed

text \<open>
  The claim as it was stated fails where the maximum is 0: the only bar of
  \<open>zero_options\<close> has value 0, which is the maximum, and its height is 0, not the
  viewport height less the top and bottom padding.
\<close>

theorem bar_height_at_zero_maximum_counterexample:
  "fst (update zero_options constructor) = Inr ()
   \<and> maxValue (the (barModel (snd (update zero_options constructor)))) = Number (Num 0)
   \<and> val (datum (barGroup (snd (update zero_options constructor)) ! 0)) = Number (Num 0)
   \<and> attr_height (barGroup (snd (update zero_options constructor)) ! 0) = Some (Num 0)
   \<and> attr_height (barGroup (snd (update zero_options constructor)) ! 0)
       \<noteq> Some (Num (height (viewport zero_options) - padding_top - padding_bottom))"
proof -
  have upd: "update zero_options constructor =
      (Inr (),
       render zero_options (buildModel [''A''] [Number (Num 0)]) (buildModel [''A''] [Number (Num 1)])
         (constructor\<lparr>barModel := Some (buildModel [''A''] [Number (Num 0)]),
                       lineModel := Some (buildModel [''A''] [Number (Num 1)])\<rparr>))"
    by (simp add: update_def setViewModel_zero)
  have bars: "barGroup (snd (update zero_options constructor)) =
      [barAttr (xScaleOf zero_options (buildModel [''A''] [Number (Num 0)]))
         (yScaleOf zero_options (buildModel [''A''] [Number (Num 0)]))
         (height (viewport zero_options))
         (newRect \<lparr>category = Some ''A'', val = Number (Num 0)\<rparr>)]"
    by (simp add: upd barGroup_render joinBars_def constructor_fields buildModel_zero)
  have y: "linear_apply (yScaleOf zero_options (buildModel [''A''] [Number (Num 0)])) (Number (Num 0)) = Num 250"
    by (simp add: linear_apply_def yScaleOf_def buildModel_zero zero_options_def padding_bottom_def)
  have h: "height (viewport zero_options) = 300"
    by (simp add: zero_options_def)
  show ?thesis
    by (simp add: bars attrs_barAttr datum_barAttr newRect_def y h padding_top_def padding_bottom_def)
      (simp add: upd models_render buildModel_zero)
qed

section \<open>Calling update twice\<close>

text \<open>
  C8. In every state an instance can be in, calling \<^verbatim>\<open>update\<close> a second time with the
  same data view and viewport gives the result and the state of the first call: the same
  models, axes, bars and line path. Where the call returns, the line group holds exactly
  one path and the bar group one bar for each point of the stored bar model.
\<close>

theorem update_idempotent:
  assumes "reachable this"
  shows "update options (snd (update options this)) = update options this
     \<and> (fst (update options this) = Inr () \<longrightarrow>
          length (lineGroup (snd (update options this))) = 1
          \<and> length (barGroup (snd (update options this))) =
              length (dataPoints (the (barModel (snd (update options this))))))"
proof -
  have line: "length (lineGroup this) \<le> 1"
    using assms by (rule reachable_lineGroup)
  then have idem: "render options bm lm (render options bm lm (snd (setViewModel options this))) =
      render options bm lm (snd (setViewModel options this))" for bm lm
    by (simp add: render_idem setViewModel_frame)
  have twice: "update options (snd (update options this)) = update options this"
    by (simp add: update_unfold setViewModel_idem setViewModel_render models_render idem
        split: sum.splits option.splits)
  have "length (removeFirst (lineGroup this)) = 0"
    using line by (simp add: length_removeFirst)
  then have count: "fst (update options this) = Inr () \<longrightarrow>
          length (lineGroup (snd (update options this))) = 1
          \<and> length (barGroup (snd (update options this))) =
              length (dataPoints (the (barModel (snd (update options this)))))"
    by (simp add: update_unfold setViewModel_frame lineGroup_render barGroup_render
        length_joinBars models_render split: sum.splits option.splits)
  from twice count show ?thesis ..
qed

theorem update_idempotent_witness:
  "reachable constructor
   \<and> update scenario_options (snd (update scenario_options constructor)) =
       update scenario_options constructor
   \<and> length (lineGroup (snd (update scenario_options constructor))) = 1
   \<and> length (barGroup (snd (update scenario_options constructor))) = 3"
proof -
  have "fst (update scenario_options constructor) = Inr ()"
    by (simp add: update_scenario)
  moreover have "dataPoints (the (barModel (snd (update scenario_options constructor)))) =
      dataPoints (buildModel [''A'', ''B'', ''C''] [Number (Num 1), Number (Num 5), Number (Num 2)])"
    by (simp add: update_scenario models_render)
  ultimately show ?thesis
    using update_idempotent [OF reachable_constructor, of scenario_options]
    by (simp add: reachable_constructor buildModel_scenario_bar)
qed

end
